theory Spec2Isabelle
  imports Complex_Main
begin

section \<open>Python text primitives used by the scraper\<close>

text \<open>
  Scraped text is modelled as \<^typ>\<open>string\<close> over ASCII. The Python built-ins the
  scraper calls on text are given by their ASCII behaviour: \<open>str.lower\<close>,
  \<open>str.strip\<close>, \<open>str.isupper\<close>, \<open>str.isdigit\<close>, \<open>str.split('\n')\<close>,
  \<open>' '.join\<close> and \<open>str.replace\<close> of a single character by the empty string.
\<close>

definition is_upper_char :: "char \<Rightarrow> bool" where
  "is_upper_char c = (65 \<le> (of_char c :: nat) \<and> (of_char c :: nat) \<le> 90)"

definition is_lower_char :: "char \<Rightarrow> bool" where
  "is_lower_char c = (97 \<le> (of_char c :: nat) \<and> (of_char c :: nat) \<le> 122)"

definition is_digit_char :: "char \<Rightarrow> bool" where
  "is_digit_char c = (48 \<le> (of_char c :: nat) \<and> (of_char c :: nat) \<le> 57)"

text \<open>The characters for which \<open>str.isspace\<close> holds (also the class \<open>\s\<close> of \<open>re\<close>).\<close>

definition is_space_char :: "char \<Rightarrow> bool" where
  "is_space_char c = (of_char c \<in> {9, 10, 11, 12, 13, 28, 29, 30, 31, 32 :: nat})"

definition lower_char :: "char \<Rightarrow> char" where
  "lower_char c = (if is_upper_char c then char_of (of_char c + (32 :: nat)) else c)"

definition py_lower :: "string \<Rightarrow> string" where
  "py_lower s = map lower_char s"

definition py_strip :: "string \<Rightarrow> string" where
  "py_strip s = rev (dropWhile is_space_char (rev (dropWhile is_space_char s)))"

text \<open>\<open>str.isupper\<close>: at least one cased character, and no lowercase one.\<close>

definition py_isupper :: "string \<Rightarrow> bool" where
  "py_isupper s = (list_ex is_upper_char s \<and> \<not> list_ex is_lower_char s)"

definition py_isdigit :: "string \<Rightarrow> bool" where
  "py_isdigit s = (s \<noteq> [] \<and> list_all is_digit_char s)"

text \<open>\<open>s.replace(c, '')\<close> for a one-character pattern.\<close>

definition py_remove :: "char \<Rightarrow> string \<Rightarrow> string" where
  "py_remove c s = filter (\<lambda>x. x \<noteq> c) s"

text \<open>\<open>s.split(sep)\<close> for a one-character separator: never the empty list.\<close>

fun py_split :: "char \<Rightarrow> string \<Rightarrow> string list" where
  "py_split sep [] = [[]]"
| "py_split sep (c # cs) =
     (if c = sep then [] # py_split sep cs
      else (case py_split sep cs of
              [] \<Rightarrow> [[c]]
            | l # ls \<Rightarrow> (c # l) # ls))"

fun py_join :: "string \<Rightarrow> string list \<Rightarrow> string" where
  "py_join sep [] = []"
| "py_join sep [x] = x"
| "py_join sep (x # y # ys) = x @ sep @ py_join sep (y # ys)"

text \<open>Decimal rendering of a natural number, as an f-string prints an \<open>int\<close>.\<close>

fun str_nat :: "nat \<Rightarrow> string" where
  "str_nat n =
     (if n < 10 then [char_of (48 + n)]
      else str_nat (n div 10) @ [char_of (48 + n mod 10)])"

declare str_nat.simps [simp del]

section \<open>Tables\<close>

text \<open>
  A \<open>pandas.DataFrame\<close> is kept as its column labels and its rows; a cell is a text
  or a missing value (\<open>NaN\<close>/\<open>None\<close>, here \<^const>\<open>None\<close>). The lists can express a
  ragged table, which is what the constructor refuses.
\<close>

datatype py_error = ValueError | KeyError | IndexError | Exception

type_synonym cell = "string option"

record dataframe =
  columns :: "string list"
  rows :: "cell list list"

definition empty_frame :: dataframe where
  "empty_frame = \<lparr>columns = [], rows = []\<rparr>"

definition rectangular :: "dataframe \<Rightarrow> bool" where
  "rectangular df = list_all (\<lambda>r. length r = length (columns df)) (rows df)"

text \<open>
  \<open>pd.DataFrame(data, columns=cols)\<close> on a list of text rows: a row whose width is
  not the number of labels raises \<open>ValueError\<close>.
\<close>

definition DataFrame :: "string list list \<Rightarrow> string list \<Rightarrow> py_error + dataframe" where
  "DataFrame data cols =
     (if list_all (\<lambda>r. length r = length cols) data
      then Inr \<lparr>columns = cols, rows = map (map Some) data\<rparr>
      else Inl ValueError)"

definition index_of :: "string \<Rightarrow> string list \<Rightarrow> nat" where
  "index_of name cols = length (takeWhile (\<lambda>c. c \<noteq> name) cols)"

text \<open>
  \<open>df[name]\<close> as a \<open>Series\<close>. A label that is absent raises \<open>KeyError\<close>; a label
  that occurs more than once yields a frame, not a series, and the scraper's uses of it
  (a truth test of \<open>.notna().any()\<close>, an element-wise \<open>apply\<close>) then raise
  \<open>ValueError\<close>.
\<close>

definition get_column :: "dataframe \<Rightarrow> string \<Rightarrow> py_error + cell list" where
  "get_column df name =
     (if count_list (columns df) name = 0 then Inl KeyError
      else if count_list (columns df) name = 1
      then Inr (map (\<lambda>r. r ! index_of name (columns df)) (rows df))
      else Inl ValueError)"

text \<open>\<open>df[name] = values\<close> for an existing, unique label.\<close>

definition set_column :: "string \<Rightarrow> cell list \<Rightarrow> dataframe \<Rightarrow> dataframe" where
  "set_column name vals df =
     df\<lparr>rows := map (\<lambda>(r, v). r[index_of name (columns df) := v]) (zip (rows df) vals)\<rparr>"

text \<open>\<open>df.insert(loc, name, value)\<close> with a scalar value.\<close>

definition insert_column :: "nat \<Rightarrow> string \<Rightarrow> cell \<Rightarrow> dataframe \<Rightarrow> py_error + dataframe" where
  "insert_column loc name v df =
     (if name \<in> set (columns df) then Inl ValueError
      else if length (columns df) < loc then Inl IndexError
      else Inr \<lparr>columns = take loc (columns df) @ name # drop loc (columns df),
                rows = map (\<lambda>r. take loc r @ v # drop loc r) (rows df)\<rparr>)"

section \<open>Column reconciler: \<open>split_ticker_column\<close>\<close>

text \<open>
  The pattern \<open>^([A-Z]{1,5})\s+(.+)$\<close> on a text without newline: a run of one to
  five capitals, then white space, then a non-empty rest.
\<close>

definition match_ticker_pattern :: "string \<Rightarrow> (string \<times> string) option" where
  "match_ticker_pattern text =
     (let u = takeWhile is_upper_char text;
          r = dropWhile is_upper_char text;
          rest = dropWhile is_space_char r
      in if 1 \<le> length u \<and> length u \<le> 5 \<and> takeWhile is_space_char r \<noteq> [] \<and> rest \<noteq> []
         then Some (u, rest) else None)"

definition extract_ticker_parts :: "cell \<Rightarrow> string \<times> string" where
  "extract_ticker_parts text =
     (case text of
        None \<Rightarrow> ('''', '''')
      | Some t \<Rightarrow>
          if t = '''' then ('''', '''')
          else let lines = py_split CHR 0x0A t in
            if 2 \<le> length lines
            then (py_strip (hd lines), py_strip (py_join '' '' (tl lines)))
            else let s = py_strip t in
              if length s \<le> 5 \<and> py_isupper s then (s, '''')
              else (case match_ticker_pattern s of
                      Some (a, b) \<Rightarrow> (a, b)
                    | None \<Rightarrow> (s, '''')))"

text \<open>\<open>'Company Name' in df.columns and df['Company Name'].notna().any()\<close>.\<close>

definition company_populated :: "dataframe \<Rightarrow> py_error + bool" where
  "company_populated df =
     (if ''Company Name'' \<notin> set (columns df) then Inr False
      else (case get_column df ''Company Name'' of
              Inl e \<Rightarrow> Inl e
            | Inr vs \<Rightarrow> Inr (list_ex (\<lambda>v. v \<noteq> None) vs)))"

definition split_ticker_column :: "dataframe \<Rightarrow> py_error + dataframe" where
  "split_ticker_column df =
     (if ''Ticker'' \<notin> set (columns df) then Inr df
      else (case company_populated df of
              Inl e \<Rightarrow> Inl e
            | Inr True \<Rightarrow> Inr df
            | Inr False \<Rightarrow>
                (case (if ''Company Name'' \<notin> set (columns df)
                       then insert_column 1 ''Company Name'' (Some '''') df
                       else Inr df) of
                   Inl e \<Rightarrow> Inl e
                 | Inr df1 \<Rightarrow>
                     (case get_column df1 ''Ticker'' of
                        Inl e \<Rightarrow> Inl e
                      | Inr tick \<Rightarrow>
                          let ticker_parts = map extract_ticker_parts tick
                          in Inr (set_column ''Company Name'' (map (Some \<circ> snd) ticker_parts)
                                   (set_column ''Ticker'' (map (Some \<circ> fst) ticker_parts) df1))))))"

section \<open>Row extractor: \<open>extract_table_data_fast\<close>\<close>

text \<open>
  The in-page routine returns the header tokens and the rows of cell texts; \<^const>\<open>None\<close>
  stands for \<open>page.evaluate\<close> raising.
\<close>

type_synonym table_data = "(string list \<times> string list list) option"

definition headers_adj :: "string list \<Rightarrow> string list" where
  "headers_adj headers =
     (if headers \<noteq> [] \<and> py_lower (hd headers) \<in> set [''ticker'', ''symbol'']
      then [''Ticker'', ''Company Name''] @ tl headers
      else headers)"

fun max_list :: "nat list \<Rightarrow> nat" where
  "max_list [] = 0"
| "max_list [x] = x"
| "max_list (x # y # ys) = max x (max_list (y # ys))"

definition max_cols :: "string list \<Rightarrow> string list list \<Rightarrow> nat" where
  "max_cols hs rows_data =
     (if rows_data \<noteq> [] then max_list (map length rows_data) else length hs)"

definition fit_headers :: "string list \<Rightarrow> nat \<Rightarrow> string list" where
  "fit_headers hs n =
     (if length hs < n
      then hs @ map (\<lambda>i. ''Column_'' @ str_nat i) [length hs..<n]
      else take n hs)"

definition rows_padded :: "string list list \<Rightarrow> nat \<Rightarrow> string list list" where
  "rows_padded rows_data n = map (\<lambda>row. row @ replicate (n - length row) '''') rows_data"

definition extract_table_data_fast :: "table_data \<Rightarrow> dataframe" where
  "extract_table_data_fast td =
     (case td of
        None \<Rightarrow> empty_frame
      | Some (headers, rows_data) \<Rightarrow>
          let hs = headers_adj headers in
          if hs \<noteq> [] \<and> rows_data \<noteq> [] then
            let n = max_cols hs rows_data in
            (case DataFrame (rows_padded rows_data n) (fit_headers hs n) of
               Inl e \<Rightarrow> empty_frame
             | Inr df \<Rightarrow>
                 if ''Ticker'' \<in> set (columns df)
                 then (case split_ticker_column df of
                         Inl e \<Rightarrow> empty_frame
                       | Inr df' \<Rightarrow> df')
                 else df)
          else empty_frame)"

section \<open>Pagination driver: \<open>load_all_rows\<close>\<close>

text \<open>
  The browser is outside the program: its answers are an input. \<open>probe\<close> is what one
  pass through the body of the \<open>while\<close> loop meets: the control is not visible
  (\<open>break\<close>), it is scrolled to and clicked, a \<open>PlaywrightTimeout\<close> is raised before
  the click is counted, or another exception is raised.
\<close>

datatype probe = Not_visible | Clicked | Timed_out | Failed

text \<open>What the scraper does to the page, in order.\<close>

datatype action = Click_tab string | Count_rows | Probe_load_more | Evaluate_table

fun is_click_tab :: "action \<Rightarrow> bool" where
  "is_click_tab (Click_tab tab_id) = True"
| "is_click_tab a = False"

text \<open>
  The answers of the page while one tab is processed: whether the click on the tab
  succeeds, the row count at the early sample and at the final one (\<^const>\<open>None\<close>: the
  locator raised), the outcome of each pass of the loop, and the result of the in-page
  extraction routine.
\<close>

record tab_world =
  click_ok :: bool
  first_count :: "nat option"
  probes :: "nat \<Rightarrow> probe"
  final_count :: "nat option"
  table :: table_data

text \<open>\<open>get_current_row_count\<close>: the count, or 0 when counting raises.\<close>

definition get_current_row_count :: "nat option \<Rightarrow> nat" where
  "get_current_row_count answer = (case answer of Some count \<Rightarrow> count | None \<Rightarrow> 0)"

definition max_clicks :: nat where
  "max_clicks = 150"

text \<open>
  The \<open>while clicks < max_clicks\<close> loop, from pass \<open>i\<close> on. It returns the click
  counter and the number of passes made.
\<close>

function load_loop :: "(nat \<Rightarrow> probe) \<Rightarrow> nat \<Rightarrow> nat \<Rightarrow> nat \<Rightarrow> nat \<times> nat" where
  "load_loop env i clicks consecutive_failures =
     (if clicks < max_clicks then
        (case env i of
           Not_visible \<Rightarrow> (clicks, Suc i)
         | Clicked \<Rightarrow> load_loop env (Suc i) (Suc clicks) 0
         | Timed_out \<Rightarrow>
             if 2 \<le> Suc consecutive_failures then (clicks, Suc i)
             else load_loop env (Suc i) clicks (Suc consecutive_failures)
         | Failed \<Rightarrow> (clicks, Suc i))
      else (clicks, i))"
  by pat_completeness auto
termination
  by (relation "measure (\<lambda>(env, i, clicks, fails). 3 * (max_clicks - clicks) + (2 - fails))")
    (auto simp: max_clicks_def)

declare load_loop.simps [simp del]

record load_result =
  clicks_returned :: nat
  passes :: nat
  total_after :: nat
  trace :: "action list"

text \<open>
  \<open>load_all_rows\<close>, with \<open>self.total_rows_loaded\<close> passed in and returned. The test
  \<open>current_count >= self.total_rows_loaded * 0.95\<close> is on whole numbers, written here as
  \<open>95 * total_rows \<le> 100 * current_count\<close>.
\<close>

definition load_all_rows :: "bool \<Rightarrow> tab_world \<Rightarrow> nat \<Rightarrow> load_result" where
  "load_all_rows is_first_tab w total_rows =
     (let current_count = get_current_row_count (first_count w) in
      if \<not> is_first_tab \<and> 95 * total_rows \<le> 100 * current_count
      then \<lparr>clicks_returned = 0, passes = 0, total_after = total_rows, trace = [Count_rows]\<rparr>
      else
        let (clicks, n) = load_loop (probes w) 0 0 0;
            count = get_current_row_count (final_count w)
        in \<lparr>clicks_returned = clicks, passes = n,
             total_after = (if total_rows < count then count else total_rows),
             trace = (if is_first_tab then [] else [Count_rows])
                       @ replicate n Probe_load_more @ [Count_rows]\<rparr>)"

section \<open>Tab iterator: \<open>scrape_tab\<close> and \<open>scrape_all_tabs\<close>\<close>

record tab_result =
  frame :: dataframe
  total_rows_loaded :: nat
  actions :: "action list"

definition scrape_tab :: "tab_world \<Rightarrow> nat \<Rightarrow> string \<Rightarrow> string \<Rightarrow> bool \<Rightarrow> tab_result" where
  "scrape_tab w total_rows tab_id tab_name is_first_tab =
     (if \<not> click_ok w
      then \<lparr>frame = empty_frame, total_rows_loaded = total_rows, actions = [Click_tab tab_id]\<rparr>
      else
        let loaded = load_all_rows is_first_tab w total_rows;
            df = extract_table_data_fast (table w)
        in \<lparr>frame = df, total_rows_loaded = total_after loaded,
             actions = Click_tab tab_id # trace loaded @ [Evaluate_table]\<rparr>)"

definition tabs :: "(string \<times> string) list" where
  "tabs =
     [(''overview'', ''Overview''),
      (''performance'', ''Performance''),
      (''valuation'', ''Valuation''),
      (''dividends'', ''Dividends''),
      (''profitability'', ''Profitability''),
      (''incomeStatement'', ''Income Statement''),
      (''balanceSheet'', ''Balance Sheet''),
      (''cashFlow'', ''Cash Flow''),
      (''technicals'', ''Technicals'')]"

text \<open>\<open>all_data[key] = df\<close> on a dictionary kept in insertion order.\<close>

fun dict_set :: "(string \<times> dataframe) list \<Rightarrow> string \<Rightarrow> dataframe \<Rightarrow> (string \<times> dataframe) list" where
  "dict_set [] k v = [(k, v)]"
| "dict_set ((k', v') # kvs) k v =
     (if k' = k then (k, v) # kvs else (k', v') # dict_set kvs k v)"

record run_state =
  all_data :: "(string \<times> dataframe) list"
  rows_seen :: nat
  performed :: "action list"

text \<open>
  The \<open>for idx, (tab_id, tab_name) in enumerate(tabs)\<close> loop; the page's answers are
  given per tab identifier.
\<close>

fun scrape_loop :: "(string \<Rightarrow> tab_world) \<Rightarrow> nat \<Rightarrow> (string \<times> string) list \<Rightarrow> run_state \<Rightarrow> run_state" where
  "scrape_loop world idx [] st = st"
| "scrape_loop world idx ((tab_id, tab_name) # rest) st =
     (let r = scrape_tab (world tab_id) (rows_seen st) tab_id tab_name (idx = 0)
      in scrape_loop world (Suc idx) rest
           \<lparr>all_data = dict_set (all_data st) tab_name (frame r),
            rows_seen = total_rows_loaded r,
            performed = performed st @ actions r\<rparr>)"

definition scrape_all_tabs :: "(string \<Rightarrow> tab_world) \<Rightarrow> nat \<Rightarrow> run_state" where
  "scrape_all_tabs world total_rows =
     scrape_loop world 0 tabs \<lparr>all_data = [], rows_seen = total_rows, performed = []\<rparr>"

section \<open>Session controller: \<open>close\<close>\<close>

text \<open>
  A computation that prints and may raise: the events it produced, then its exception
  or its value. \<open>try_except\<close> is \<open>try: body except Exception as e: handler(e)\<close>.
  What the browser and the engine raise are exceptions of class \<open>Exception\<close>, the
  class both handlers of \<open>close\<close> name.
\<close>

datatype event =
    Browser_close | Print_browser_closed | Print_error_closing_browser py_error
  | Playwright_stop | Print_playwright_stopped | Print_error_stopping_playwright py_error

type_synonym 'a comp = "event list \<times> (py_error + 'a)"

definition try_except :: "'a comp \<Rightarrow> (py_error \<Rightarrow> 'a comp) \<Rightarrow> 'a comp" where
  "try_except body handler =
     (case snd body of
        Inl e \<Rightarrow> (fst body @ fst (handler e), snd (handler e))
      | Inr v \<Rightarrow> body)"

definition then_do :: "unit comp \<Rightarrow> 'a comp \<Rightarrow> 'a comp" where
  "then_do first second =
     (case snd first of
        Inl e \<Rightarrow> (fst first, Inl e)
      | Inr u \<Rightarrow> (fst first @ fst second, snd second))"

datatype outcome = Done | Raises py_error

record resources =
  browser :: "nat option"
  playwright :: "nat option"

record teardown_world =
  browser_close :: outcome
  playwright_stop :: outcome

definition close :: "resources \<Rightarrow> teardown_world \<Rightarrow> unit comp" where
  "close self w =
     then_do
       (try_except
          (if browser self \<noteq> None
           then (case browser_close w of
                   Done \<Rightarrow> ([Browser_close, Print_browser_closed], Inr ())
                 | Raises e \<Rightarrow> ([Browser_close], Inl e))
           else ([], Inr ()))
          (\<lambda>e. ([Print_error_closing_browser e], Inr ())))
       (try_except
          (if playwright self \<noteq> None
           then (case playwright_stop w of
                   Done \<Rightarrow> ([Playwright_stop, Print_playwright_stopped], Inr ())
                 | Raises e \<Rightarrow> ([Playwright_stop], Inl e))
           else ([], Inr ()))
          (\<lambda>e. ([Print_error_stopping_playwright e], Inr ())))"

section \<open>Formatter: the data-cell pass of \<open>format_excel_professionally\<close>\<close>

text \<open>
  \<open>float(text)\<close>: white space is stripped, then an optional sign and either a decimal
  number (digits, with single underscores between digits allowed, an optional point,
  an optional exponent) or one of \<open>inf\<close>, \<open>infinity\<close>, \<open>nan\<close> in any case. Any other
  text raises \<open>ValueError\<close>, here \<^const>\<open>None\<close>. The value is kept as the exact decimal
  the text denotes; rounding to a binary double is not part of the model.
\<close>

datatype py_float = Finite rat | Infinite bool | NaN

fun is_digitpart :: "string \<Rightarrow> bool" where
  "is_digitpart [] = False"
| "is_digitpart [c] = is_digit_char c"
| "is_digitpart (c # d # cs) =
     (is_digit_char c \<and> (if d = CHR ''_'' then is_digitpart cs else is_digitpart (d # cs)))"

definition nat_of_digits :: "string \<Rightarrow> nat" where
  "nat_of_digits s = foldl (\<lambda>a c. 10 * a + (of_char c - 48)) 0 (filter is_digit_char s)"

definition parse_number :: "string \<Rightarrow> rat option" where
  "parse_number m =
     (let a = takeWhile (\<lambda>c. c \<noteq> CHR ''.'') m;
          r = dropWhile (\<lambda>c. c \<noteq> CHR ''.'') m
      in if r = [] then (if is_digitpart a then Some (of_nat (nat_of_digits a)) else None)
         else let b = tl r in
           if (a = [] \<or> is_digitpart a) \<and> (b = [] \<or> is_digitpart b) \<and> \<not> (a = [] \<and> b = [])
           then Some (of_nat (nat_of_digits (a @ b)) / 10 ^ length (filter is_digit_char b))
           else None)"

definition parse_exponent :: "string \<Rightarrow> int option" where
  "parse_exponent e =
     (case e of
        [] \<Rightarrow> None
      | c # cs \<Rightarrow>
          if c = CHR ''+'' then (if is_digitpart cs then Some (int (nat_of_digits cs)) else None)
          else if c = CHR ''-'' then (if is_digitpart cs then Some (- int (nat_of_digits cs)) else None)
          else if is_digitpart e then Some (int (nat_of_digits e)) else None)"

definition parse_floatnumber :: "string \<Rightarrow> rat option" where
  "parse_floatnumber s =
     (let m = takeWhile (\<lambda>c. c \<noteq> CHR ''e'' \<and> c \<noteq> CHR ''E'') s;
          r = dropWhile (\<lambda>c. c \<noteq> CHR ''e'' \<and> c \<noteq> CHR ''E'') s
      in case parse_number m of
           None \<Rightarrow> None
         | Some q \<Rightarrow>
             if r = [] then Some q
             else (case parse_exponent (tl r) of
                     None \<Rightarrow> None
                   | Some k \<Rightarrow> Some (if 0 \<le> k then q * 10 ^ nat k else q / 10 ^ nat (- k))))"

definition float :: "string \<Rightarrow> py_float option" where
  "float text =
     (let t = py_strip text;
          negative = (t \<noteq> [] \<and> hd t = CHR ''-'');
          body = (if t \<noteq> [] \<and> (hd t = CHR ''-'' \<or> hd t = CHR ''+'') then tl t else t);
          word = py_lower body
      in if word = ''inf'' \<or> word = ''infinity'' then Some (Infinite negative)
         else if word = ''nan'' then Some NaN
         else (case parse_floatnumber body of
                 None \<Rightarrow> None
               | Some q \<Rightarrow> Some (Finite (if negative then - q else q))))"

text \<open>\<open>num / 100\<close> and \<open>abs(num) >= bound\<close> on such values.\<close>

definition div_100 :: "py_float \<Rightarrow> py_float" where
  "div_100 num = (case num of Finite q \<Rightarrow> Finite (q / 100) | Infinite b \<Rightarrow> Infinite b | NaN \<Rightarrow> NaN)"

definition abs_ge :: "py_float \<Rightarrow> rat \<Rightarrow> bool" where
  "abs_ge num bound = (case num of Finite q \<Rightarrow> bound \<le> \<bar>q\<bar> | Infinite b \<Rightarrow> True | NaN \<Rightarrow> False)"

datatype cell_value = Empty | Text string | Number py_float

datatype halign = Left | Right

record cell_style =
  new_value :: cell_value
  number_format :: string
  alignment :: "halign option"

text \<open>
  The test \<open>cell_value.replace(',', '').replace('.', '').replace('-', '').replace('+', '').isdigit()\<close>,
  which the source writes out in two of its guards.
\<close>

definition only_digits_left :: "string \<Rightarrow> bool" where
  "only_digits_left cell_value =
     py_isdigit (py_remove CHR ''+'' (py_remove CHR ''-'' (py_remove CHR ''.''
       (py_remove CHR '','' cell_value))))"

datatype branch = Percentage | Currency | Plain_number | Plain_text

text \<open>The \<open>if\<close>/\<open>elif\<close>/\<open>elif\<close>/\<open>else\<close> chain on the stripped text of a data cell.\<close>

definition select_branch :: "string \<Rightarrow> branch" where
  "select_branch cell_value =
     (if CHR ''%'' \<in> set cell_value then Percentage
      else if CHR ''$'' \<in> set cell_value \<or> only_digits_left cell_value then Currency
      else if only_digits_left cell_value then Plain_number
      else Plain_text)"

definition format_billions :: string where
  "format_billions = ''$#,##0.00,,'' @ [CHR 0x22, CHR ''B'', CHR 0x22]"

definition format_millions :: string where
  "format_millions = ''$#,##0.00,'' @ [CHR 0x22, CHR ''M'', CHR 0x22]"

definition format_thousands :: string where
  "format_thousands = ''$#,##0.00,'' @ [CHR 0x22, CHR ''K'', CHR 0x22]"

definition magnitude_format :: "py_float \<Rightarrow> string" where
  "magnitude_format num =
     (if abs_ge num 1000000000 then format_billions
      else if abs_ge num 1000000 then format_millions
      else if abs_ge num 1000 then format_thousands
      else ''$#,##0.00'')"

text \<open>
  One cell of a data row: \<open>col_idx\<close> counts from 1, \<open>v\<close> is \<open>cell.value\<close> as the
  workbook holds it (\<^const>\<open>None\<close> for an empty cell). A cell starts with the number
  format \<open>General\<close> and no alignment of its own.
\<close>

definition format_cell :: "nat \<Rightarrow> string option \<Rightarrow> cell_style" where
  "format_cell col_idx v =
     (case v of
        None \<Rightarrow> \<lparr>new_value = Empty, number_format = ''General'', alignment = None\<rparr>
      | Some t \<Rightarrow>
          if t = '''' then \<lparr>new_value = Text t, number_format = ''General'', alignment = None\<rparr>
          else
            let cell_value = py_strip t;
                as_text = (\<lambda>a. \<lparr>new_value = Text t, number_format = ''General'', alignment = Some a\<rparr>)
            in if col_idx \<le> 2 then as_text Left
               else (case select_branch cell_value of
                 Percentage \<Rightarrow>
                   (case float (py_remove CHR '','' (py_remove CHR ''%'' cell_value)) of
                      Some num \<Rightarrow> \<lparr>new_value = Number (div_100 num), number_format = ''0.00%'',
                                    alignment = Some Right\<rparr>
                    | None \<Rightarrow> as_text Right)
               | Currency \<Rightarrow>
                   (case float (py_remove CHR ''+'' (py_remove CHR '','' (py_remove CHR ''$'' cell_value))) of
                      Some num \<Rightarrow> \<lparr>new_value = Number num, number_format = magnitude_format num,
                                    alignment = Some Right\<rparr>
                    | None \<Rightarrow>
                        (case float (py_remove CHR ''+'' (py_remove CHR '','' cell_value)) of
                           Some num \<Rightarrow> \<lparr>new_value = Number num, number_format = ''#,##0.00'',
                                         alignment = Some Right\<rparr>
                         | None \<Rightarrow> as_text Left))
               | Plain_number \<Rightarrow>
                   (case float (py_remove CHR ''+'' (py_remove CHR '','' cell_value)) of
                      Some num \<Rightarrow> \<lparr>new_value = Number num, number_format = ''#,##0.00'',
                                    alignment = Some Right\<rparr>
                    | None \<Rightarrow> as_text Left)
               | Plain_text \<Rightarrow> as_text Left))"

text \<open>\<open>for col_idx, cell in enumerate(row, start=1)\<close>.\<close>

definition format_row :: "string option list \<Rightarrow> cell_style list" where
  "format_row row = map (\<lambda>(i, v). format_cell (Suc i) v) (enumerate 0 row)"

section \<open>Sample inputs\<close>

text \<open>A frame whose \<open>Ticker\<close> column still holds symbol and name together.\<close>

definition combined_frame :: dataframe where
  "combined_frame =
     \<lparr>columns = [''Ticker'', ''Price''],
      rows = [[Some ''AAPL Apple Inc.'', Some ''1.0''], [Some ''MSFT'', Some ''2.0'']]\<rparr>"

definition split_frame :: dataframe where
  "split_frame =
     \<lparr>columns = [''Ticker'', ''Company Name'', ''Price''],
      rows = [[Some ''AAPL'', Some ''Apple Inc.'', Some ''1.0''],
              [Some ''MSFT'', Some '''', Some ''2.0'']]\<rparr>"

text \<open>A frame with combined tickers next to names that are all the empty text.\<close>

definition blank_names_frame :: dataframe where
  "blank_names_frame =
     \<lparr>columns = [''Ticker'', ''Company Name'', ''Price''],
      rows = [[Some ''AAPL Apple Inc.'', Some '''', Some ''1.0''],
              [Some ''MSFT'', Some '''', Some ''2.0'']]\<rparr>"

text \<open>A page whose control times out on every other pass and responds on the others.\<close>

definition hiccup_world :: tab_world where
  "hiccup_world =
     \<lparr>click_ok = True, first_count = Some 0,
      probes = (\<lambda>i. if even i then Timed_out else Clicked),
      final_count = Some 4500, table = None\<rparr>"

text \<open>A later tab that already shows more rows than any tab before it.\<close>

definition skip_world :: tab_world where
  "skip_world =
     \<lparr>click_ok = True, first_count = Some 200, probes = (\<lambda>i. Not_visible),
      final_count = Some 200, table = None\<rparr>"

text \<open>A page on which the click on the \<open>valuation\<close> tab fails.\<close>

definition one_tab_down :: "string \<Rightarrow> tab_world" where
  "one_tab_down tab_id =
     \<lparr>click_ok = (tab_id \<noteq> ''valuation''), first_count = Some 1,
      probes = (\<lambda>i. Not_visible), final_count = Some 1,
      table = Some ([''symbol'', ''Price''], [[''AAPL'', ''Apple Inc.'', ''1.0'']])\<rparr>"

section \<open>Properties of the row extractor and the column reconciler\<close>

subsection \<open>Column counts\<close>

lemma max_list_upper: "x \<in> set xs \<Longrightarrow> x \<le> max_list xs"
  by (induction xs rule: max_list.induct) auto

lemma max_list_mem: "xs \<noteq> [] \<Longrightarrow> max_list xs \<in> set xs"
  by (induction xs rule: max_list.induct) (auto simp: max_def)

lemma length_fit_headers: "length (fit_headers hs n) = n"
  by (simp add: fit_headers_def)

lemma length_rows_padded:
  assumes "row \<in> set (rows_padded rows_data (max_list (map length rows_data)))"
  shows "length row = max_list (map length rows_data)"
proof -
  from assms obtain r where r: "r \<in> set rows_data"
    and row: "row = r @ replicate (max_list (map length rows_data) - length r) ''''"
    by (auto simp: rows_padded_def)
  from r have "length r \<le> max_list (map length rows_data)"
    by (intro max_list_upper) simp
  with row show ?thesis by simp
qed

lemma DataFrame_reconciled:
  "DataFrame (rows_padded rows_data (max_list (map length rows_data)))
      (fit_headers hs (max_list (map length rows_data))) =
   Inr \<lparr>columns = fit_headers hs (max_list (map length rows_data)),
        rows = map (map Some) (rows_padded rows_data (max_list (map length rows_data)))\<rparr>"
  by (simp add: DataFrame_def list_all_iff length_fit_headers length_rows_padded)

lemma rectangular_DataFrame: "DataFrame data cols = Inr df \<Longrightarrow> rectangular df"
  by (auto simp: DataFrame_def rectangular_def list_all_iff split: if_splits)

lemma rectangular_insert_column:
  "rectangular df \<Longrightarrow> insert_column loc name v df = Inr df' \<Longrightarrow> rectangular df'"
  by (auto simp: insert_column_def rectangular_def list_all_iff split: if_splits)

lemma rectangular_set_column: "rectangular df \<Longrightarrow> rectangular (set_column name vals df)"
  by (auto simp: set_column_def rectangular_def list_all_iff dest!: set_zip_leftD)

lemma rectangular_split_ticker_column:
  "rectangular df \<Longrightarrow> split_ticker_column df = Inr df' \<Longrightarrow> rectangular df'"
  unfolding split_ticker_column_def
  by (auto simp: Let_def rectangular_set_column
      split: if_splits sum.splits bool.splits dest: rectangular_insert_column)

lemma rectangular_empty_frame: "rectangular empty_frame"
  by (simp add: rectangular_def empty_frame_def)

lemma rectangular_extract: "rectangular (extract_table_data_fast td)"
  unfolding extract_table_data_fast_def
  by (auto simp: Let_def rectangular_empty_frame
      split: option.splits prod.splits sum.splits
      dest: rectangular_DataFrame rectangular_split_ticker_column)

lemma index_of_less: "name \<in> set cols \<Longrightarrow> index_of name cols < length cols"
  unfolding index_of_def by (induction cols) auto

lemma columns_set_column: "columns (set_column name vals df) = columns df"
  by (simp add: set_column_def)

lemma length_rows_set_column:
  "length vals = length (rows df) \<Longrightarrow> length (rows (set_column name vals df)) = length (rows df)"
  by (simp add: set_column_def)

lemma get_column_unique:
  "count_list (columns d) name = 1 \<Longrightarrow>
   get_column d name = Inr (map (\<lambda>r. r ! index_of name (columns d)) (rows d))"
  by (simp add: get_column_def)

lemma count_list_take_drop:
  "count_list (take k xs) z + count_list (drop k xs) z = count_list xs z"
  using count_list_append [of "take k xs" "drop k xs" z] by simp

lemma count_list_insert_at:
  "y \<noteq> z \<Longrightarrow> count_list (take k xs @ y # drop k xs) z = count_list xs z"
  by (simp add: count_list_take_drop)

lemma company_populated_text_frame:
  assumes "count_list cols ''Company Name'' = 1" and "data \<noteq> []"
    and "list_all (\<lambda>r. length r = length cols) data"
  shows "company_populated \<lparr>columns = cols, rows = map (map Some) data\<rparr> = Inr True"
proof -
  from assms(1) have cin: "''Company Name'' \<in> set cols"
    by (metis count_list_0_iff zero_neq_one)
  then have lt: "index_of ''Company Name'' cols < length cols"
    by (rule index_of_less)
  from assms(2) obtain r rs where d: "data = r # rs" by (cases data) auto
  with assms(3) lt have "index_of ''Company Name'' cols < length r" by simp
  then have "map Some r ! index_of ''Company Name'' cols \<noteq> None" by simp
  with d assms(1) cin show ?thesis
    by (simp add: company_populated_def get_column_def)
qed

lemma split_text_frame_populated:
  assumes "count_list cols ''Company Name'' = 1" and "data \<noteq> []"
    and "list_all (\<lambda>r. length r = length cols) data"
  shows "split_ticker_column \<lparr>columns = cols, rows = map (map Some) data\<rparr> =
         Inr \<lparr>columns = cols, rows = map (map Some) data\<rparr>"
  using company_populated_text_frame [OF assms]
  by (simp add: split_ticker_column_def)

lemma split_text_frame_inserts:
  assumes T: "count_list cols ''Ticker'' = 1" and C: "''Company Name'' \<notin> set cols"
  shows "\<exists>df'. split_ticker_column \<lparr>columns = cols, rows = rs\<rparr> = Inr df' \<and>
           columns df' = take 1 cols @ ''Company Name'' # drop 1 cols \<and>
           length (rows df') = length rs"
proof -
  from T have Tin: "''Ticker'' \<in> set cols"
    by (metis count_list_0_iff zero_neq_one)
  then have len: "\<not> length cols < 1" by (cases cols) auto
  let ?df1 = "\<lparr>columns = take 1 cols @ ''Company Name'' # drop 1 cols,
              rows = map (\<lambda>r. take 1 r @ Some '''' # drop 1 r) rs\<rparr>"
  have ins: "insert_column 1 ''Company Name'' (Some '''') \<lparr>columns = cols, rows = rs\<rparr> = Inr ?df1"
    using C len by (simp add: insert_column_def)
  have neq: "''Company Name'' \<noteq> ''Ticker''" by simp
  have "count_list (take 1 cols @ ''Company Name'' # drop 1 cols) ''Ticker'' = 1"
    using count_list_insert_at [OF neq, of 1 cols] T by (simp only:)
  then have T1: "count_list (columns ?df1) ''Ticker'' = 1"
    by (simp only: dataframe.select_convs)
  define tick where "tick = map (\<lambda>r. r ! index_of ''Ticker'' (columns ?df1)) (rows ?df1)"
  have tick: "get_column ?df1 ''Ticker'' = Inr tick"
    unfolding tick_def by (rule get_column_unique [OF T1])
  have lt: "length tick = length rs"
    by (simp add: tick_def)
  have pop: "company_populated \<lparr>columns = cols, rows = rs\<rparr> = Inr False"
    using C by (simp add: company_populated_def)
  let ?res = "set_column ''Company Name'' (map (Some \<circ> snd) (map extract_ticker_parts tick))
               (set_column ''Ticker'' (map (Some \<circ> fst) (map extract_ticker_parts tick)) ?df1)"
  have "split_ticker_column \<lparr>columns = cols, rows = rs\<rparr> = Inr ?res"
    using Tin C pop ins tick by (simp add: split_ticker_column_def Let_def)
  moreover have "columns ?res = take 1 cols @ ''Company Name'' # drop 1 cols"
    by (simp add: columns_set_column)
  moreover have "length (rows ?res) = length rs"
    using lt by (simp add: length_rows_set_column)
  ultimately show ?thesis by blast
qed

text \<open>
  Claim C1. When the adjusted header list and the row list are both non-empty, the
  width \<open>n\<close> that \<open>extract_table_data_fast\<close> computes is the greatest row width; the
  header list fitted to it (cut, or extended by \<open>Column_i\<close> names) has \<open>n\<close> entries
  and every row, padded on the right with empty texts, has \<open>n\<close> cells, so the frame
  constructor accepts them. The frame that is returned is this reconciled frame, passed
  through \<open>split_ticker_column\<close> when it has a \<open>Ticker\<close> column: it is the
  reconciled frame itself when there is no \<open>Ticker\<close> column or exactly one
  \<open>Company Name\<close> column, and it has one more column and as many rows when
  \<open>Company Name\<close> had to be inserted. In every case each returned row is as long
  as the returned list of column labels.
\<close>

theorem extract_table_data_fast_not_ragged:
  assumes "headers_adj headers \<noteq> []" and "rows_data \<noteq> []"
  shows "let hs = headers_adj headers;
             n = max_cols hs rows_data;
             reconciled = \<lparr>columns = fit_headers hs n,
                           rows = map (map Some) (rows_padded rows_data n)\<rparr>;
             df = extract_table_data_fast (Some (headers, rows_data)) in
         n \<in> set (map length rows_data) \<and>
         list_all (\<lambda>row. length row \<le> n) rows_data \<and>
         fit_headers hs n = take n hs @ map (\<lambda>i. ''Column_'' @ str_nat i) [length hs..<n] \<and>
         length (fit_headers hs n) = n \<and>
         rows_padded rows_data n = map (\<lambda>row. row @ replicate (n - length row) '''') rows_data \<and>
         list_all (\<lambda>row. length row = n) (rows_padded rows_data n) \<and>
         DataFrame (rows_padded rows_data n) (fit_headers hs n) = Inr reconciled \<and>
         df = (if ''Ticker'' \<in> set (fit_headers hs n)
               then (case split_ticker_column reconciled of
                       Inl e \<Rightarrow> empty_frame
                     | Inr df' \<Rightarrow> df')
               else reconciled) \<and>
         (''Ticker'' \<notin> set (fit_headers hs n) \<or>
          count_list (fit_headers hs n) ''Company Name'' = 1 \<longrightarrow> df = reconciled) \<and>
         (count_list (fit_headers hs n) ''Ticker'' = 1 \<and>
          ''Company Name'' \<notin> set (fit_headers hs n) \<longrightarrow>
            columns df = take 1 (fit_headers hs n) @ ''Company Name'' # drop 1 (fit_headers hs n) \<and>
            length (rows df) = length rows_data) \<and>
         list_all (\<lambda>row. length row = length (columns df)) (rows df)"
proof -
  let ?n = "max_list (map length rows_data)"
  let ?hs = "headers_adj headers"
  let ?rec = "\<lparr>columns = fit_headers ?hs ?n, rows = map (map Some) (rows_padded rows_data ?n)\<rparr>"
  let ?df = "extract_table_data_fast (Some (headers, rows_data))"
  have n: "max_cols ?hs rows_data = ?n"
    using assms(2) by (simp add: max_cols_def)
  have greatest: "?n \<in> set (map length rows_data)"
    using assms(2) by (intro max_list_mem) simp
  have upper: "list_all (\<lambda>row. length row \<le> ?n) rows_data"
    by (simp add: list_all_iff max_list_upper)
  have shape: "fit_headers ?hs ?n =
      take ?n ?hs @ map (\<lambda>i. ''Column_'' @ str_nat i) [length ?hs..<?n]"
    by (simp add: fit_headers_def)
  have padding: "rows_padded rows_data ?n =
      map (\<lambda>row. row @ replicate (?n - length row) '''') rows_data"
    by (simp add: rows_padded_def)
  have padded: "list_all (\<lambda>row. length row = ?n) (rows_padded rows_data ?n)"
    by (simp add: list_all_iff length_rows_padded)
  have padded': "list_all (\<lambda>row. length row = length (fit_headers ?hs ?n)) (rows_padded rows_data ?n)"
    using padded by (simp add: length_fit_headers)
  have nonempty: "rows_padded rows_data ?n \<noteq> []"
    using assms(2) by (simp add: rows_padded_def)
  have result: "?df = (if ''Ticker'' \<in> set (fit_headers ?hs ?n)
               then (case split_ticker_column ?rec of
                       Inl e \<Rightarrow> empty_frame
                     | Inr df' \<Rightarrow> df')
               else ?rec)"
    using assms by (simp add: extract_table_data_fast_def Let_def n DataFrame_reconciled)
  have same: "?df = ?rec"
    if "''Ticker'' \<notin> set (fit_headers ?hs ?n) \<or> count_list (fit_headers ?hs ?n) ''Company Name'' = 1"
  proof (cases "''Ticker'' \<in> set (fit_headers ?hs ?n)")
    case False
    with result show ?thesis by simp
  next
    case True
    with that have "count_list (fit_headers ?hs ?n) ''Company Name'' = 1" by simp
    from split_text_frame_populated [OF this nonempty padded'] True result
    show ?thesis by simp
  qed
  have inserted: "columns ?df = take 1 (fit_headers ?hs ?n) @ ''Company Name'' # drop 1 (fit_headers ?hs ?n) \<and>
            length (rows ?df) = length rows_data"
    if "count_list (fit_headers ?hs ?n) ''Ticker'' = 1 \<and> ''Company Name'' \<notin> set (fit_headers ?hs ?n)"
  proof -
    from that have Tin: "''Ticker'' \<in> set (fit_headers ?hs ?n)"
      by (metis count_list_0_iff zero_neq_one)
    from that split_text_frame_inserts [of "fit_headers ?hs ?n" "map (map Some) (rows_padded rows_data ?n)"]
    obtain df' where "split_ticker_column ?rec = Inr df'"
      and "columns df' = take 1 (fit_headers ?hs ?n) @ ''Company Name'' # drop 1 (fit_headers ?hs ?n)"
      and "length (rows df') = length (map (map Some) (rows_padded rows_data ?n))"
      by blast
    with Tin result show ?thesis
      by (simp add: rows_padded_def)
  qed
  have returned: "list_all (\<lambda>row. length row = length (columns ?df)) (rows ?df)"
    using rectangular_extract [of "Some (headers, rows_data)"] by (simp add: rectangular_def)
  from same have same': "''Ticker'' \<notin> set (fit_headers ?hs ?n) \<or>
          count_list (fit_headers ?hs ?n) ''Company Name'' = 1 \<longrightarrow> ?df = ?rec"
    by blast
  from inserted have inserted': "count_list (fit_headers ?hs ?n) ''Ticker'' = 1 \<and>
          ''Company Name'' \<notin> set (fit_headers ?hs ?n) \<longrightarrow>
            columns ?df = take 1 (fit_headers ?hs ?n) @ ''Company Name'' # drop 1 (fit_headers ?hs ?n) \<and>
            length (rows ?df) = length rows_data"
    by blast
  show ?thesis
    unfolding Let_def n
    by (intro conjI greatest upper shape length_fit_headers padding padded
        DataFrame_reconciled result same' inserted' returned)
qed

lemma headers_adj_example: "headers_adj [''symbol'', ''Price''] = [''Ticker'', ''Company Name'', ''Price'']"
  by code_simp

lemma fit_example:
  "fit_headers (headers_adj [''symbol'', ''Price''])
     (max_cols (headers_adj [''symbol'', ''Price''])
        [[''AAPL'', ''Apple Inc.'', ''1'', ''2''], [''X'', ''y'']]) =
   [''Ticker'', ''Company Name'', ''Price'', ''Column_3'']"
  by code_simp

lemma padded_example:
  "rows_padded [[''AAPL'', ''Apple Inc.'', ''1'', ''2''], [''X'', ''y'']]
     (max_cols (headers_adj [''symbol'', ''Price''])
        [[''AAPL'', ''Apple Inc.'', ''1'', ''2''], [''X'', ''y'']]) =
   [[''AAPL'', ''Apple Inc.'', ''1'', ''2''], [''X'', ''y'', '''', '''']]"
  by code_simp

lemma max_cols_example:
  "max_cols (headers_adj [''symbol'', ''Price''])
     [[''AAPL'', ''Apple Inc.'', ''1'', ''2''], [''X'', ''y'']] = 4"
  by code_simp

theorem extract_table_data_fast_not_ragged_witness:
  "extract_table_data_fast
     (Some ([''symbol'', ''Price''], [[''AAPL'', ''Apple Inc.'', ''1'', ''2''], [''X'', ''y'']])) =
   \<lparr>columns = [''Ticker'', ''Company Name'', ''Price'', ''Column_3''],
    rows = [[Some ''AAPL'', Some ''Apple Inc.'', Some ''1'', Some ''2''],
            [Some ''X'', Some ''y'', Some '''', Some '''']]\<rparr>"
proof -
  have h: "headers_adj [''symbol'', ''Price''] \<noteq> []"
    by (simp add: headers_adj_example)
  have r: "[[''AAPL'', ''Apple Inc.'', ''1'', ''2''], [''X'', ''y'']] \<noteq> []"
    by simp
  let ?hs = "headers_adj [''symbol'', ''Price'']"
  let ?data = "[[''AAPL'', ''Apple Inc.'', ''1'', ''2''], [''X'', ''y'']]"
  let ?n = "max_cols ?hs ?data"
  have one: "count_list (fit_headers ?hs ?n) ''Company Name'' = 1"
    by (simp add: fit_example)
  from extract_table_data_fast_not_ragged [OF h r]
  have "''Ticker'' \<notin> set (fit_headers ?hs ?n) \<or>
          count_list (fit_headers ?hs ?n) ''Company Name'' = 1 \<longrightarrow>
        extract_table_data_fast (Some ([''symbol'', ''Price''], ?data)) =
          \<lparr>columns = fit_headers ?hs ?n, rows = map (map Some) (rows_padded ?data ?n)\<rparr>"
    unfolding Let_def by blast
  with one have "extract_table_data_fast (Some ([''symbol'', ''Price''], ?data)) =
          \<lparr>columns = fit_headers ?hs ?n, rows = map (map Some) (rows_padded ?data ?n)\<rparr>"
    by blast
  then show ?thesis
    by (simp add: fit_example padded_example)
qed

subsection \<open>Header adjustment\<close>

text \<open>
  Claim C6. A header list whose first token, lowercased, is \<open>ticker\<close> or \<open>symbol\<close>
  is adjusted to \<open>Ticker\<close>, \<open>Company Name\<close> and then the remaining original tokens.
\<close>

theorem headers_adj_ticker_symbol:
  assumes "headers \<noteq> []"
    and "py_lower (hd headers) = ''ticker'' \<or> py_lower (hd headers) = ''symbol''"
  shows "headers_adj headers = [''Ticker'', ''Company Name''] @ tl headers"
  using assms by (auto simp: headers_adj_def)

lemma py_lower_symbol: "py_lower ''symbol'' = ''symbol''"
  by code_simp

theorem headers_adj_ticker_symbol_witness:
  "headers_adj [''symbol'', ''Price'', ''Change''] =
     [''Ticker'', ''Company Name'', ''Price'', ''Change'']"
  using headers_adj_ticker_symbol [of "[''symbol'', ''Price'', ''Change'']"]
  by (simp add: py_lower_symbol)

subsection \<open>Ticker split\<close>

lemma nth_update_zip:
  assumes "length rs = length vs" and "\<forall>r \<in> set rs. i < length r"
  shows "map (\<lambda>r. r ! i) (map (\<lambda>(r, v). r[i := v]) (zip rs vs)) = vs"
  using assms by (induction rs vs rule: list_induct2) auto

lemma get_set_column:
  assumes "rectangular df" and "count_list (columns df) name = 1"
    and "length vals = length (rows df)"
  shows "get_column (set_column name vals df) name = Inr vals"
proof -
  from assms(2) have "name \<in> set (columns df)"
    by (metis count_list_0_iff zero_neq_one)
  then have "index_of name (columns df) < length (columns df)"
    by (rule index_of_less)
  with assms(1) have "\<forall>r \<in> set (rows df). index_of name (columns df) < length r"
    by (simp add: rectangular_def list_all_iff)
  with assms(3) have "map (\<lambda>r. r ! index_of name (columns df))
      (map (\<lambda>(r, v). r[index_of name (columns df) := v]) (zip (rows df) vals)) = vals"
    by (intro nth_update_zip) simp_all
  with assms(2) show ?thesis
    by (simp add: get_column_def set_column_def)
qed

lemma set_column_no_rows: "rows df = [] \<Longrightarrow> set_column name vals df = df"
  by (simp add: set_column_def)

text \<open>A frame on which the reconciler has nothing left to do.\<close>

lemma split_fixed:
  assumes T: "count_list (columns d) ''Ticker'' = 1"
    and C: "count_list (columns d) ''Company Name'' = 1"
    and pop: "get_column d ''Company Name'' = Inr cs" and cs: "list_all (\<lambda>v. v \<noteq> None) cs"
    and len: "length cs = length (rows d)"
  shows "split_ticker_column d = Inr d"
proof -
  from T have Tin: "''Ticker'' \<in> set (columns d)"
    by (metis count_list_0_iff zero_neq_one)
  from C have Cin: "''Company Name'' \<in> set (columns d)"
    by (metis count_list_0_iff zero_neq_one)
  show ?thesis
  proof (cases "rows d = []")
    case True
    with T Tin Cin C show ?thesis
      by (simp add: split_ticker_column_def company_populated_def get_column_def
          set_column_no_rows)
  next
    case False
    with len have "cs \<noteq> []" by auto
    with cs have "list_ex (\<lambda>v. v \<noteq> None) cs"
      by (cases cs) simp_all
    with pop Tin Cin show ?thesis
      by (simp add: split_ticker_column_def company_populated_def)
  qed
qed

lemma split_ticker_column_result_fixed:
  assumes rect: "rectangular df" and res: "split_ticker_column df = Inr df'"
  shows "split_ticker_column df' = Inr df'"
proof (cases "''Ticker'' \<in> set (columns df)")
  case False
  with res show ?thesis by (simp add: split_ticker_column_def)
next
  case Tin: True
  show ?thesis
  proof (cases "company_populated df")
    case (Inl e)
    with Tin res show ?thesis by (simp add: split_ticker_column_def)
  next
    case (Inr b)
    show ?thesis
    proof (cases b)
      case True
      with Inr Tin res show ?thesis by (simp add: split_ticker_column_def)
    next
      case False
      define pre where "pre = (if ''Company Name'' \<notin> set (columns df)
                       then insert_column 1 ''Company Name'' (Some '''') df
                       else Inr df)"
      from res Tin Inr False obtain df1 tick where
        df1: "pre = Inr df1" and tick: "get_column df1 ''Ticker'' = Inr tick"
        and df': "df' = set_column ''Company Name'' (map (Some \<circ> snd) (map extract_ticker_parts tick))
                   (set_column ''Ticker'' (map (Some \<circ> fst) (map extract_ticker_parts tick)) df1)"
        by (auto simp: split_ticker_column_def pre_def Let_def split: sum.splits if_splits)
      have rect1: "rectangular df1"
        using df1 rect by (auto simp: pre_def split: if_splits dest: rectangular_insert_column)
      have T1: "count_list (columns df1) ''Ticker'' = 1"
        using tick by (auto simp: get_column_def split: if_splits)
      have C1: "count_list (columns df1) ''Company Name'' = 1"
      proof (cases "''Company Name'' \<in> set (columns df)")
        case True
        with Inr have "count_list (columns df) ''Company Name'' = 1"
          by (auto simp: company_populated_def get_column_def split: if_splits sum.splits)
        with True df1 show ?thesis by (simp add: pre_def)
      next
        case F: False
        then have "count_list (columns df) ''Company Name'' = 0"
          by (simp add: count_list_0_iff)
        moreover have "count_list (take 1 (columns df)) ''Company Name'' = 0"
          using F by (metis count_list_0_iff in_set_takeD)
        moreover have "count_list (drop 1 (columns df)) ''Company Name'' = 0"
          using F by (metis count_list_0_iff in_set_dropD)
        ultimately show ?thesis
          using F df1 by (auto simp: pre_def insert_column_def split: if_splits)
      qed
      have lt: "length tick = length (rows df1)"
        using tick by (auto simp: get_column_def split: if_splits)
      let ?tv = "map (Some \<circ> fst) (map extract_ticker_parts tick)"
      let ?cv = "map (Some \<circ> snd) (map extract_ticker_parts tick)"
      let ?d2 = "set_column ''Ticker'' ?tv df1"
      have rect2: "rectangular ?d2" using rect1 by (rule rectangular_set_column)
      have len2: "length (rows ?d2) = length (rows df1)"
        using lt by (simp add: length_rows_set_column)
      have "get_column df' ''Company Name'' = Inr ?cv"
        unfolding df' using rect2 C1 len2 lt
        by (intro get_set_column) (simp_all add: columns_set_column)
      moreover have "list_all (\<lambda>v. v \<noteq> None) ?cv"
        by (simp add: list_all_iff)
      moreover have "length ?cv = length (rows df')"
        unfolding df' using len2 lt by (simp add: length_rows_set_column)
      moreover have "count_list (columns df') ''Ticker'' = 1"
        "count_list (columns df') ''Company Name'' = 1"
        unfolding df' using T1 C1 by (simp_all add: columns_set_column)
      ultimately show ?thesis
        by (intro split_fixed)
    qed
  qed
qed

text \<open>
  Claim C2. On a frame (every row as long as the list of labels), applying
  \<open>split_ticker_column\<close> to its own result gives that result again, and a call that
  raises is one call that raises either way; and when the \<open>Company Name\<close> column
  exists and is populated, the frame is returned as it is.
\<close>

theorem split_ticker_column_idempotent:
  assumes "rectangular df"
  shows "(case split_ticker_column df of
            Inl e \<Rightarrow> Inl e
          | Inr df' \<Rightarrow> split_ticker_column df') = split_ticker_column df \<and>
         (company_populated df = Inr True \<longrightarrow> split_ticker_column df = Inr df)"
proof -
  have "split_ticker_column df = Inr df" if "company_populated df = Inr True"
    using that by (simp add: split_ticker_column_def)
  moreover have "(case split_ticker_column df of
            Inl e \<Rightarrow> Inl e
          | Inr df' \<Rightarrow> split_ticker_column df') = split_ticker_column df"
    using split_ticker_column_result_fixed [OF assms]
    by (cases "split_ticker_column df") simp_all
  ultimately show ?thesis by blast
qed

lemma split_example: "split_ticker_column combined_frame = Inr split_frame"
  by code_simp

lemma populated_example: "company_populated split_frame = Inr True"
  by code_simp

theorem split_ticker_column_idempotent_witness:
  "rectangular combined_frame \<and> split_ticker_column combined_frame = Inr split_frame \<and>
   rectangular split_frame \<and> company_populated split_frame = Inr True \<and>
   split_ticker_column split_frame = Inr split_frame"
proof -
  have r: "rectangular combined_frame"
    by (simp add: rectangular_def combined_frame_def)
  have r': "rectangular split_frame"
    by (simp add: rectangular_def split_frame_def)
  from split_ticker_column_idempotent [OF r]
  have once: "split_ticker_column split_frame = Inr split_frame"
    by (simp add: split_example)
  from split_ticker_column_idempotent [OF r'] populated_example
  have "split_ticker_column split_frame = Inr split_frame"
    by blast
  with once r r' show ?thesis
    by (simp add: split_example populated_example)
qed

text \<open>
  Claim C10. A frame with one \<open>Company Name\<close> column whose values are all the empty
  text is returned unchanged, whatever the \<open>Ticker\<close> column holds: an empty text is
  not a missing value. (Without any row the check finds nothing populated; the frame
  is still returned unchanged when the \<open>Ticker\<close> label is not repeated.)
\<close>

theorem split_ticker_column_empty_names_unchanged:
  assumes "get_column df ''Company Name'' = Inr vs"
    and "list_all (\<lambda>v. v = Some '''') vs"
    and "vs \<noteq> [] \<or> count_list (columns df) ''Ticker'' \<le> 1"
  shows "split_ticker_column df = Inr df"
proof (cases "''Ticker'' \<in> set (columns df)")
  case False
  then show ?thesis by (simp add: split_ticker_column_def)
next
  case Tin: True
  from assms(1) have Cin: "''Company Name'' \<in> set (columns df)"
    by (auto simp: get_column_def count_list_0_iff split: if_splits)
  show ?thesis
  proof (cases vs)
    case Nil
    with assms(1) have "rows df = []"
      by (auto simp: get_column_def split: if_splits)
    moreover from Nil assms(3) Tin have "count_list (columns df) ''Ticker'' = 1"
      by (metis count_list_0_iff le_neq_implies_less less_one)
    ultimately show ?thesis using Tin Cin assms(1) Nil
      by (simp add: split_ticker_column_def company_populated_def get_column_def
          set_column_no_rows)
  next
    case (Cons v vs')
    with assms(2) have "list_ex (\<lambda>v. v \<noteq> None) vs" by simp
    with assms(1) Tin Cin show ?thesis
      by (simp add: split_ticker_column_def company_populated_def)
  qed
qed

lemma blank_names_example:
  "get_column blank_names_frame ''Company Name'' = Inr [Some '''', Some '''']"
  by code_simp

theorem split_ticker_column_empty_names_unchanged_witness:
  "get_column blank_names_frame ''Company Name'' = Inr [Some '''', Some ''''] \<and>
   get_column blank_names_frame ''Ticker'' = Inr [Some ''AAPL Apple Inc.'', Some ''MSFT''] \<and>
   split_ticker_column blank_names_frame = Inr blank_names_frame"
proof -
  have a: "list_all (\<lambda>v. v = Some '''') [Some '''', Some '''']" by simp
  have t: "get_column blank_names_frame ''Ticker'' = Inr [Some ''AAPL Apple Inc.'', Some ''MSFT'']"
    by code_simp
  have "split_ticker_column blank_names_frame = Inr blank_names_frame"
    by (rule split_ticker_column_empty_names_unchanged [OF blank_names_example a]) simp
  with blank_names_example t show ?thesis by simp
qed

section \<open>Properties of the pagination driver\<close>

text \<open>
  What the loop returns, from any pass, counter and failure count: the passes only go
  forward, the counter grows by the number of clicked passes, it stays within the
  budget, and the passes left are at most two for each click left.
\<close>

lemma load_loop_invariant:
  "(case load_loop env i c f of (c', k) \<Rightarrow>
      i \<le> k \<and>
      c' = c + length (filter (\<lambda>j. env j = Clicked) [i..<k]) \<and>
      (c \<le> max_clicks \<longrightarrow> c' \<le> max_clicks) \<and>
      (c < max_clicks \<longrightarrow> k + min f 1 \<le> i + 2 * (max_clicks - c)) \<and>
      (max_clicks \<le> c \<longrightarrow> k = i))"
proof (induction env i c f rule: load_loop.induct)
  case (1 env i clicks fails)
  show ?case
  proof (cases "clicks < max_clicks")
    case False
    then show ?thesis by (simp add: load_loop.simps [of env i clicks fails])
  next
    case run: True
    show ?thesis
    proof (cases "env i")
      case Not_visible
      with run show ?thesis
        by (simp add: load_loop.simps [of env i clicks fails] upt_conv_Cons)
    next
      case Failed
      with run show ?thesis
        by (simp add: load_loop.simps [of env i clicks fails] upt_conv_Cons)
    next
      case Clicked
      from "1.IH"(1) [OF run Clicked] run Clicked show ?thesis
        by (auto simp: load_loop.simps [of env i clicks fails] upt_conv_Cons
            split: prod.splits)
    next
      case Timed_out
      show ?thesis
      proof (cases "2 \<le> Suc fails")
        case True
        with run Timed_out show ?thesis
          by (simp add: load_loop.simps [of env i clicks fails] upt_conv_Cons)
      next
        case False
        from "1.IH"(2) [OF run Timed_out False] run Timed_out False show ?thesis
          by (auto simp: load_loop.simps [of env i clicks fails] upt_conv_Cons
              split: prod.splits)
      qed
    qed
  qed
qed

text \<open>
  Claim C3. Whatever the page answers, \<open>load_all_rows\<close> returns: the click counter
  it returns is at most 150, the loop makes at most 300 passes, the counter is the
  number of passes in which the control was clicked, and the control is probed once
  per pass.
\<close>

theorem load_all_rows_bounded:
  "clicks_returned (load_all_rows is_first_tab w total_rows) \<le> 150 \<and>
   passes (load_all_rows is_first_tab w total_rows) \<le> 300 \<and>
   clicks_returned (load_all_rows is_first_tab w total_rows) =
     length (filter (\<lambda>j. probes w j = Clicked)
       [0..<passes (load_all_rows is_first_tab w total_rows)]) \<and>
   length (filter (\<lambda>a. a = Probe_load_more) (trace (load_all_rows is_first_tab w total_rows))) =
     passes (load_all_rows is_first_tab w total_rows)"
proof -
  obtain c k where ck: "load_loop (probes w) 0 0 0 = (c, k)"
    by (cases "load_loop (probes w) 0 0 0")
  from load_loop_invariant [where env = "probes w" and i = 0 and c = 0 and f = 0] ck
  have "c \<le> 150" "k \<le> 300" "c = length (filter (\<lambda>j. probes w j = Clicked) [0..<k])"
    by (simp_all add: max_clicks_def)
  with ck show ?thesis
    by (simp add: load_all_rows_def Let_def)
qed

lemma hiccup_run: "load_loop (probes hiccup_world) 0 0 0 = (150, 300)"
  by code_simp

theorem load_all_rows_bounded_witness:
  "clicks_returned (load_all_rows True hiccup_world 0) = 150 \<and>
   passes (load_all_rows True hiccup_world 0) = 300 \<and>
   length (filter (\<lambda>j. probes hiccup_world j = Clicked) [0..<300]) = 150"
proof -
  have c: "clicks_returned (load_all_rows True hiccup_world 0) = 150"
    and p: "passes (load_all_rows True hiccup_world 0) = 300"
    by (simp_all add: load_all_rows_def Let_def hiccup_run)
  from load_all_rows_bounded [of True hiccup_world 0] c p show ?thesis
    by simp
qed

text \<open>
  Claim C4, as the code has it. When \<open>load_all_rows\<close> runs its loop (first tab, or
  a current count below 95% of the rows seen so far), it counts the rows again after
  the last pass and the cumulative maximum becomes the greater of the two. When a later
  tab already shows at least 95% of the rows seen so far, it returns 0 at once: one
  count only, and the cumulative maximum is left as it was.
\<close>

theorem load_all_rows_resamples_unless_skipped:
  "(is_first_tab \<or> 100 * get_current_row_count (first_count w) < 95 * total_rows \<longrightarrow>
      total_after (load_all_rows is_first_tab w total_rows) =
        max total_rows (get_current_row_count (final_count w)) \<and>
      clicks_returned (load_all_rows is_first_tab w total_rows) = fst (load_loop (probes w) 0 0 0) \<and>
      trace (load_all_rows is_first_tab w total_rows) =
        (if is_first_tab then [] else [Count_rows])
          @ replicate (passes (load_all_rows is_first_tab w total_rows)) Probe_load_more
          @ [Count_rows]) \<and>
   (\<not> is_first_tab \<and> 95 * total_rows \<le> 100 * get_current_row_count (first_count w) \<longrightarrow>
      load_all_rows is_first_tab w total_rows =
        \<lparr>clicks_returned = 0, passes = 0, total_after = total_rows, trace = [Count_rows]\<rparr>)"
proof (cases "\<not> is_first_tab \<and> 95 * total_rows \<le> 100 * get_current_row_count (first_count w)")
  case True
  then show ?thesis
    by (auto simp: load_all_rows_def)
next
  case False
  obtain c k where "load_loop (probes w) 0 0 0 = (c, k)"
    by (cases "load_loop (probes w) 0 0 0")
  with False show ?thesis
    by (auto simp: load_all_rows_def Let_def max_def)
qed

text \<open>
  The claim as stated fails on the skip path: with 100 rows seen so far and 200 rows
  on the page, the call counts once, returns, and the maximum stays 100.
\<close>

theorem load_all_rows_skip_keeps_total:
  "get_current_row_count (final_count skip_world) = 200 \<and>
   total_after (load_all_rows False skip_world 100) = 100 \<and>
   trace (load_all_rows False skip_world 100) = [Count_rows] \<and>
   total_after (load_all_rows False skip_world 100) \<noteq>
     max 100 (get_current_row_count (final_count skip_world))"
  by (simp add: load_all_rows_def skip_world_def get_current_row_count_def)

lemma first_tab_run: "load_loop (probes skip_world) 0 0 0 = (0, 1)"
  by code_simp

theorem load_all_rows_resamples_unless_skipped_witness:
  "total_after (load_all_rows True skip_world 100) = 200 \<and>
   trace (load_all_rows True skip_world 100) = [Probe_load_more, Count_rows] \<and>
   load_all_rows False skip_world 100 =
     \<lparr>clicks_returned = 0, passes = 0, total_after = 100, trace = [Count_rows]\<rparr>"
proof -
  have skip: "\<not> False \<and> 95 * 100 \<le> 100 * get_current_row_count (first_count skip_world)"
    by (simp add: skip_world_def get_current_row_count_def)
  have p: "passes (load_all_rows True skip_world 100) = 1"
    by (simp add: load_all_rows_def Let_def first_tab_run)
  from load_all_rows_resamples_unless_skipped [of True skip_world 100]
    load_all_rows_resamples_unless_skipped [of False skip_world 100] skip p
  show ?thesis
    by (simp add: skip_world_def get_current_row_count_def)
qed

section \<open>Properties of the tab iterator\<close>

lemma dict_set_fresh: "k \<notin> fst ` set kvs \<Longrightarrow> dict_set kvs k v = kvs @ [(k, v)]"
  by (induction kvs) auto

lemma frame_scrape_tab:
  "frame (scrape_tab w total_rows tab_id tab_name is_first_tab) =
     (if click_ok w then extract_table_data_fast (table w) else empty_frame)"
  by (simp add: scrape_tab_def Let_def)

lemma no_click_in_trace: "filter is_click_tab (trace (load_all_rows is_first_tab w total_rows)) = []"
  by (simp add: load_all_rows_def Let_def split: prod.splits)

lemma clicks_scrape_tab:
  "filter is_click_tab (actions (scrape_tab w total_rows tab_id tab_name is_first_tab)) =
     [Click_tab tab_id]"
  by (simp add: scrape_tab_def Let_def no_click_in_trace)

lemma all_data_scrape_loop:
  assumes "distinct (map snd ts)" and "set (map snd ts) \<inter> fst ` set (all_data st) = {}"
  shows "all_data (scrape_loop world idx ts st) =
     all_data st @ map (\<lambda>(tab_id, tab_name).
       (tab_name, if click_ok (world tab_id) then extract_table_data_fast (table (world tab_id))
                  else empty_frame)) ts"
  using assms
proof (induction ts arbitrary: idx st)
  case Nil
  then show ?case by simp
next
  case (Cons t ts)
  obtain tab_id tab_name where t: "t = (tab_id, tab_name)" by (cases t)
  from Cons.prems t have fresh: "tab_name \<notin> fst ` set (all_data st)" by auto
  let ?r = "scrape_tab (world tab_id) (rows_seen st) tab_id tab_name (idx = 0)"
  let ?st = "\<lparr>all_data = dict_set (all_data st) tab_name (frame ?r),
            rows_seen = total_rows_loaded ?r,
            performed = performed st @ actions ?r\<rparr>"
  have "all_data (scrape_loop world (Suc idx) ts ?st) =
      all_data ?st @ map (\<lambda>(tab_id, tab_name).
       (tab_name, if click_ok (world tab_id) then extract_table_data_fast (table (world tab_id))
                  else empty_frame)) ts"
    using Cons.prems t by (intro Cons.IH) (auto simp: dict_set_fresh [OF fresh])
  then show ?case
    by (simp add: t Let_def dict_set_fresh [OF fresh] frame_scrape_tab)
qed

lemma clicks_scrape_loop:
  "filter is_click_tab (performed (scrape_loop world idx ts st)) =
     filter is_click_tab (performed st) @ map (Click_tab \<circ> fst) ts"
proof (induction ts arbitrary: idx st)
  case Nil
  then show ?case by simp
next
  case (Cons t ts)
  obtain tab_id tab_name where t: "t = (tab_id, tab_name)" by (cases t)
  show ?case
    by (simp add: t Let_def Cons.IH clicks_scrape_tab)
qed

lemma distinct_tab_names: "distinct (map snd tabs)"
  by (simp add: tabs_def)

text \<open>
  Claim C7. When the click on a tab fails, \<open>scrape_tab\<close> returns the empty frame
  having done nothing but the click: no row count, no probe of the control, no
  extraction. \<open>scrape_all_tabs\<close> stores that empty frame under the tab's name, stores
  under every other name what that tab yields, and clicks all nine tabs in their
  fixed order.
\<close>

theorem scrape_all_tabs_survives_click_failure:
  assumes "(tab_id, tab_name) \<in> set tabs" and "\<not> click_ok (world tab_id)"
  shows "scrape_tab (world tab_id) total_rows tab_id tab_name is_first_tab =
           \<lparr>frame = empty_frame, total_rows_loaded = total_rows, actions = [Click_tab tab_id]\<rparr> \<and>
         map_of (all_data (scrape_all_tabs world total_rows)) tab_name = Some empty_frame \<and>
         all_data (scrape_all_tabs world total_rows) =
           map (\<lambda>(tab_id, tab_name).
             (tab_name, if click_ok (world tab_id) then extract_table_data_fast (table (world tab_id))
                        else empty_frame)) tabs \<and>
         filter is_click_tab (performed (scrape_all_tabs world total_rows)) =
           map (Click_tab \<circ> fst) tabs"
proof -
  let ?f = "\<lambda>(tab_id, tab_name).
             (tab_name, if click_ok (world tab_id) then extract_table_data_fast (table (world tab_id))
                        else empty_frame)"
  have all: "all_data (scrape_all_tabs world total_rows) = map ?f tabs"
    unfolding scrape_all_tabs_def
    using all_data_scrape_loop [OF distinct_tab_names,
        of "\<lparr>all_data = [], rows_seen = total_rows, performed = []\<rparr>" world 0]
    by simp
  have keys: "map fst (map ?f tabs) = map snd tabs"
    by (simp add: case_prod_unfold comp_def)
  from assms have "(tab_name, empty_frame) \<in> set (map ?f tabs)"
    by force
  moreover have "distinct (map fst (map ?f tabs))"
    unfolding keys by (rule distinct_tab_names)
  ultimately have "map_of (map ?f tabs) tab_name = Some empty_frame"
    by (rule map_of_is_SomeI [rotated])
  moreover have "filter is_click_tab (performed (scrape_all_tabs world total_rows)) =
           map (Click_tab \<circ> fst) tabs"
    unfolding scrape_all_tabs_def by (simp add: clicks_scrape_loop)
  moreover have "scrape_tab (world tab_id) total_rows tab_id tab_name is_first_tab =
           \<lparr>frame = empty_frame, total_rows_loaded = total_rows, actions = [Click_tab tab_id]\<rparr>"
    using assms(2) by (simp add: scrape_tab_def)
  ultimately show ?thesis
    using all by simp
qed

lemma run_example:
  "map (\<lambda>(k, df). (k, columns df)) (all_data (scrape_all_tabs one_tab_down 0)) =
     [(''Overview'', [''Ticker'', ''Company Name'', ''Price'']),
      (''Performance'', [''Ticker'', ''Company Name'', ''Price'']),
      (''Valuation'', []),
      (''Dividends'', [''Ticker'', ''Company Name'', ''Price'']),
      (''Profitability'', [''Ticker'', ''Company Name'', ''Price'']),
      (''Income Statement'', [''Ticker'', ''Company Name'', ''Price'']),
      (''Balance Sheet'', [''Ticker'', ''Company Name'', ''Price'']),
      (''Cash Flow'', [''Ticker'', ''Company Name'', ''Price'']),
      (''Technicals'', [''Ticker'', ''Company Name'', ''Price''])]"
  by code_simp

theorem scrape_all_tabs_survives_click_failure_witness:
  "map_of (all_data (scrape_all_tabs one_tab_down 0)) ''Valuation'' = Some empty_frame \<and>
   filter is_click_tab (performed (scrape_all_tabs one_tab_down 0)) = map (Click_tab \<circ> fst) tabs \<and>
   map (\<lambda>(k, df). (k, columns df)) (all_data (scrape_all_tabs one_tab_down 0)) =
     [(''Overview'', [''Ticker'', ''Company Name'', ''Price'']),
      (''Performance'', [''Ticker'', ''Company Name'', ''Price'']),
      (''Valuation'', []),
      (''Dividends'', [''Ticker'', ''Company Name'', ''Price'']),
      (''Profitability'', [''Ticker'', ''Company Name'', ''Price'']),
      (''Income Statement'', [''Ticker'', ''Company Name'', ''Price'']),
      (''Balance Sheet'', [''Ticker'', ''Company Name'', ''Price'']),
      (''Cash Flow'', [''Ticker'', ''Company Name'', ''Price'']),
      (''Technicals'', [''Ticker'', ''Company Name'', ''Price''])]"
proof -
  have t: "(''valuation'', ''Valuation'') \<in> set tabs"
    by (simp add: tabs_def)
  have c: "\<not> click_ok (one_tab_down ''valuation'')"
    by (simp add: one_tab_down_def)
  note h = scrape_all_tabs_survives_click_failure
      [where world = one_tab_down and tab_id = "''valuation''" and tab_name = "''Valuation''"
        and total_rows = 0 and is_first_tab = False, OF t c]
  from h have a: "map_of (all_data (scrape_all_tabs one_tab_down 0)) ''Valuation'' = Some empty_frame"
    by blast
  from h have b: "filter is_click_tab (performed (scrape_all_tabs one_tab_down 0)) =
      map (Click_tab \<circ> fst) tabs"
    by blast
  from a b run_example show ?thesis
    by blast
qed

section \<open>Properties of the session controller\<close>

text \<open>
  Claim C8. \<open>close\<close> always returns normally. The browser is closed exactly when the
  \<open>browser\<close> field is set and the engine is stopped exactly when the \<open>playwright\<close>
  field is set, whatever the other step did; an exception of either step is printed;
  and with both fields unset nothing is done at all.
\<close>

theorem close_never_raises:
  "snd (close self w) = Inr () \<and>
   (Browser_close \<in> set (fst (close self w)) \<longleftrightarrow> browser self \<noteq> None) \<and>
   (Playwright_stop \<in> set (fst (close self w)) \<longleftrightarrow> playwright self \<noteq> None) \<and>
   (\<forall>e. browser self \<noteq> None \<and> browser_close w = Raises e \<longrightarrow>
      Print_error_closing_browser e \<in> set (fst (close self w))) \<and>
   (\<forall>e. playwright self \<noteq> None \<and> playwright_stop w = Raises e \<longrightarrow>
      Print_error_stopping_playwright e \<in> set (fst (close self w))) \<and>
   (browser self = None \<and> playwright self = None \<longrightarrow> close self w = ([], Inr ()))"
proof (cases "browser_close w")
  case Done
  then show ?thesis
    by (cases "playwright_stop w") (auto simp: close_def then_do_def try_except_def)
next
  case (Raises e)
  then show ?thesis
    by (cases "playwright_stop w") (auto simp: close_def then_do_def try_except_def)
qed

theorem close_never_raises_witness:
  "close \<lparr>browser = Some 1, playwright = Some 2\<rparr>
     \<lparr>browser_close = Raises Exception, playwright_stop = Raises Exception\<rparr> =
   ([Browser_close, Print_error_closing_browser Exception,
     Playwright_stop, Print_error_stopping_playwright Exception], Inr ()) \<and>
   close \<lparr>browser = None, playwright = None\<rparr>
     \<lparr>browser_close = Raises Exception, playwright_stop = Raises Exception\<rparr> = ([], Inr ())"
  using close_never_raises [of "\<lparr>browser = None, playwright = None\<rparr>"
        "\<lparr>browser_close = Raises Exception, playwright_stop = Raises Exception\<rparr>"]
    close_never_raises [of "\<lparr>browser = Some 1, playwright = Some 2\<rparr>"
        "\<lparr>browser_close = Raises Exception, playwright_stop = Raises Exception\<rparr>"]
  by (simp add: close_def then_do_def try_except_def)

section \<open>Properties of the formatter\<close>

lemma format_row_nth:
  "j < length row \<Longrightarrow> format_row row ! j = format_cell (Suc j) (row ! j)"
  by (simp add: format_row_def nth_enumerate_eq)

lemma select_branch_dollars: "select_branch ''$1,234,567.00'' = Currency"
  by (simp add: select_branch_def)

lemma remove_dollars:
  "py_remove CHR ''+'' (py_remove CHR '','' (py_remove CHR ''$'' ''$1,234,567.00'')) = ''1234567.00''"
  by (simp add: py_remove_def)

lemma strip_digits_dollars: "py_strip ''1234567.00'' = ''1234567.00''"
  by (simp add: py_strip_def is_space_char_def)

lemma nat_of_digits_dollars: "nat_of_digits ''123456700'' = 123456700"
  by (simp add: nat_of_digits_def is_digit_char_def)

lemma is_digitpart_dollars: "is_digitpart ''1234567''" "is_digitpart ''00''"
  by (simp_all add: is_digit_char_def)

lemma parse_number_dollars: "parse_number ''1234567.00'' = Some 1234567"
  by (simp add: parse_number_def nat_of_digits_dollars is_digitpart_dollars is_digit_char_def)

lemma parse_floatnumber_dollars: "parse_floatnumber ''1234567.00'' = Some 1234567"
  by (simp add: parse_floatnumber_def parse_number_dollars)

lemma py_lower_dollars: "py_lower ''1234567.00'' = ''1234567.00''"
  by (simp add: py_lower_def lower_char_def is_upper_char_def)

lemma float_dollars:
  "float (py_remove CHR ''+'' (py_remove CHR '','' (py_remove CHR ''$'' ''$1,234,567.00''))) =
     Some (Finite 1234567)"
  by (simp add: float_def remove_dollars strip_digits_dollars parse_floatnumber_dollars
      py_lower_dollars)

lemma magnitude_dollars: "magnitude_format (Finite 1234567) = format_millions"
  by (simp add: magnitude_format_def abs_ge_def)

lemma hd_magnitude_format: "hd (magnitude_format num) = CHR ''$''"
  by (simp add: magnitude_format_def format_billions_def format_millions_def format_thousands_def)

text \<open>
  Claim C5. A data cell past the first two columns whose stripped text is
  \<open>$1,234,567.00\<close> gets the numeric value 1234567 and the millions number format,
  right-aligned: the value is at least 1000000 and below 1000000000.
\<close>

theorem format_cell_millions:
  assumes "2 \<le> j" and "j < length row" and "row ! j = Some t"
    and "py_strip t = ''$1,234,567.00''"
  shows "format_row row ! j =
           \<lparr>new_value = Number (Finite 1234567), number_format = format_millions,
            alignment = Some Right\<rparr> \<and>
         abs_ge (Finite 1234567) 1000000 \<and> \<not> abs_ge (Finite 1234567) 1000000000"
proof -
  from assms(4) have "t \<noteq> ''''"
    by (auto simp: py_strip_def)
  with assms show ?thesis
    by (simp add: format_row_nth format_cell_def Let_def select_branch_dollars float_dollars
        magnitude_dollars abs_ge_def)
qed

lemma strip_dollars: "py_strip '' $1,234,567.00 '' = ''$1,234,567.00''"
  by (simp add: py_strip_def is_space_char_def)

theorem format_cell_millions_witness:
  "format_row [Some ''AAPL'', Some ''Apple Inc.'', Some '' $1,234,567.00 ''] ! 2 =
     \<lparr>new_value = Number (Finite 1234567), number_format = format_millions,
      alignment = Some Right\<rparr>"
  using format_cell_millions
    [of 2 "[Some ''AAPL'', Some ''Apple Inc.'', Some '' $1,234,567.00 '']" "'' $1,234,567.00 ''"]
  by (simp add: strip_dollars)

text \<open>
  Claim C9. For a data cell past the first two columns whose stripped text has no
  \<open>%\<close> and passes the only-digits test, the currency branch is taken, and when the
  parse succeeds the cell gets the parsed number and a number format that starts with
  \<open>$\<close>, whether or not the text has a \<open>$\<close>. No text at all selects the
  plain-number branch.
\<close>

theorem plain_number_branch_unreachable:
  assumes "2 < col_idx" and "CHR ''%'' \<notin> set (py_strip t)" and "only_digits_left (py_strip t)"
  shows "select_branch (py_strip t) = Currency \<and>
         (\<forall>s. select_branch s \<noteq> Plain_number) \<and>
         (\<forall>num. float (py_remove CHR ''+'' (py_remove CHR '','' (py_remove CHR ''$'' (py_strip t)))) = Some num \<longrightarrow>
            format_cell col_idx (Some t) =
              \<lparr>new_value = Number num, number_format = magnitude_format num, alignment = Some Right\<rparr> \<and>
            hd (magnitude_format num) = CHR ''$'')"
proof -
  from assms(3) have "py_strip t \<noteq> ''''"
    by (auto simp: only_digits_left_def py_isdigit_def py_remove_def)
  then have t: "t \<noteq> ''''"
    by (auto simp: py_strip_def)
  have b: "select_branch (py_strip t) = Currency"
    using assms(2,3) by (simp add: select_branch_def)
  have "\<forall>s. select_branch s \<noteq> Plain_number"
    by (simp add: select_branch_def)
  with b t assms(1) show ?thesis
    by (simp add: format_cell_def Let_def hd_magnitude_format)
qed

lemma plain_strip: "py_strip ''1,234'' = ''1,234''"
  by (simp add: py_strip_def is_space_char_def)

lemma plain_digits: "only_digits_left ''1,234''"
  by (simp add: only_digits_left_def py_remove_def py_isdigit_def is_digit_char_def)

lemma plain_float:
  "float (py_remove CHR ''+'' (py_remove CHR '','' (py_remove CHR ''$'' ''1,234''))) =
     Some (Finite 1234)"
  by (simp add: float_def py_remove_def py_strip_def is_space_char_def py_lower_def lower_char_def
      is_upper_char_def parse_floatnumber_def parse_number_def nat_of_digits_def is_digit_char_def)

theorem plain_number_branch_unreachable_witness:
  "CHR ''$'' \<notin> set ''1,234'' \<and>
   select_branch ''1,234'' = Currency \<and>
   format_cell 3 (Some ''1,234'') =
     \<lparr>new_value = Number (Finite 1234), number_format = format_thousands,
      alignment = Some Right\<rparr>"
proof -
  have c: "(2::nat) < 3" by simp
  have p: "CHR ''%'' \<notin> set (py_strip ''1,234'')"
    by (simp add: plain_strip)
  have d: "only_digits_left (py_strip ''1,234'')"
    by (simp add: plain_strip plain_digits)
  note h = plain_number_branch_unreachable [OF c p d]
  from h have "select_branch ''1,234'' = Currency"
    by (simp add: plain_strip)
  moreover from h plain_float
  have "format_cell 3 (Some ''1,234'') =
     \<lparr>new_value = Number (Finite 1234), number_format = magnitude_format (Finite 1234),
      alignment = Some Right\<rparr>"
    by (simp add: plain_strip)
  ultimately show ?thesis
    by (simp add: magnitude_format_def abs_ge_def)
qed

end
